theory Spec2Isabelle
  imports Main "HOL-Library.Sublist"
begin

section \<open>Strings\<close>

text \<open>
  A JavaScript string is modelled by the bytes of its UTF-8 encoding (\<open>string\<close> is
  \<open>char list\<close>, a \<open>char\<close> is a byte). Every string operation index.ts uses
  (concatenation, \<open>join\<close>, the regular expressions over \<open>/\<close> and \<open>-\<close>, \<open>trim\<close>,
  \<open>decodeURIComponent\<close>) acts on whole characters, so on well-formed text the bytes
  of the result are the encoding of the JavaScript result.
\<close>

definition nl :: string where
  "nl = [CHR 0x0A]"

definition dq :: string where
  "dq = [CHR 0x22]"

text \<open>
  The literals of index.ts that are not ASCII, byte for byte as the file stores them:
  the bullet marker of lines 212 and 271, and the markers of lines 250 and 255.
\<close>

definition bullet :: string where
  "bullet = [CHR 0xC3, CHR 0xA2, CHR 0xE2, CHR 0x82, CHR 0xAC, CHR 0xC2, CHR 0xA2]"

definition page_marker :: string where
  "page_marker = [CHR 0xC3, CHR 0xB0, CHR 0xC5, CHR 0xB8, CHR 0xE2, CHR 0x80, CHR 0x9C,
                  CHR 0xE2, CHR 0x80, CHR 0x9E]"

definition database_marker :: string where
  "database_marker = [CHR 0xC3, CHR 0xB0, CHR 0xC5, CHR 0xB8, CHR 0xE2, CHR 0x80, CHR 0x9C,
                      CHR 0xC5, CHR 0xA0]"

text \<open>\<open>xs.join(sep)\<close> on an array of strings.\<close>

fun join :: "string \<Rightarrow> string list \<Rightarrow> string" where
  "join sep [] = []"
| "join sep [x] = x"
| "join sep (x # y # ys) = x @ sep @ join sep (y # ys)"

text \<open>The decimal digits of a natural number, as a template literal prints it.\<close>

function dec :: "nat \<Rightarrow> string" where
  "dec n = (if n < 10 then [''0123456789'' ! n]
            else dec (n div 10) @ [''0123456789'' ! (n mod 10)])"
  by pat_completeness auto
termination
  by (relation "measure id") auto

declare dec.simps [simp del]

definition dec_int :: "int \<Rightarrow> string" where
  "dec_int i = (if i < 0 then ''-'' @ dec (nat (- i)) else dec (nat i))"

subsection \<open>\<open>String.prototype.trim\<close>\<close>

text \<open>
  \<open>trim\<close> removes the characters of WhiteSpace and LineTerminator from both ends:
  U+0009 to U+000D, U+0020, U+00A0, U+1680, U+2000 to U+200A, U+2028, U+2029, U+202F,
  U+205F, U+3000 and U+FEFF, here in their UTF-8 encodings.
\<close>

definition white_space :: "string list" where
  "white_space =
    [[CHR 0x09], [CHR 0x0A], [CHR 0x0B], [CHR 0x0C], [CHR 0x0D], [CHR 0x20],
     [CHR 0xC2, CHR 0xA0],
     [CHR 0xE1, CHR 0x9A, CHR 0x80],
     [CHR 0xE2, CHR 0x80, CHR 0x80], [CHR 0xE2, CHR 0x80, CHR 0x81],
     [CHR 0xE2, CHR 0x80, CHR 0x82], [CHR 0xE2, CHR 0x80, CHR 0x83],
     [CHR 0xE2, CHR 0x80, CHR 0x84], [CHR 0xE2, CHR 0x80, CHR 0x85],
     [CHR 0xE2, CHR 0x80, CHR 0x86], [CHR 0xE2, CHR 0x80, CHR 0x87],
     [CHR 0xE2, CHR 0x80, CHR 0x88], [CHR 0xE2, CHR 0x80, CHR 0x89],
     [CHR 0xE2, CHR 0x80, CHR 0x8A],
     [CHR 0xE2, CHR 0x80, CHR 0xA8], [CHR 0xE2, CHR 0x80, CHR 0xA9],
     [CHR 0xE2, CHR 0x80, CHR 0xAF],
     [CHR 0xE2, CHR 0x81, CHR 0x9F],
     [CHR 0xE3, CHR 0x80, CHR 0x80],
     [CHR 0xEF, CHR 0xBB, CHR 0xBF]]"

text \<open>
  \<open>strip ws s\<close> removes from the front of \<open>s\<close> every leading occurrence of a
  sequence of \<open>ws\<close>.
\<close>

function strip :: "string list \<Rightarrow> string \<Rightarrow> string" where
  "strip ws s =
     (case find (\<lambda>w. w \<noteq> [] \<and> prefix w s) ws of
        None \<Rightarrow> s
      | Some w \<Rightarrow> strip ws (drop (length w) s))"
  by pat_completeness auto

lemma find_prefix_shorter:
  "find (\<lambda>w. w \<noteq> [] \<and> prefix w s) ws = Some w \<Longrightarrow> length (drop (length w) s) < length s"
  by (auto simp: find_Some_iff prefix_def)

termination strip
  by (relation "measure (\<lambda>(ws, s). length s)") (auto dest: find_prefix_shorter)

declare strip.simps [simp del]

definition trimStart :: "string \<Rightarrow> string" where
  "trimStart s = strip white_space s"

definition trimEnd :: "string \<Rightarrow> string" where
  "trimEnd s = rev (strip (map rev white_space) (rev s))"

definition trim :: "string \<Rightarrow> string" where
  "trim s = trimEnd (trimStart s)"

subsection \<open>\<open>decodeURIComponent\<close>\<close>

text \<open>
  ECMAScript's Decode with an empty set of preserved escapes: a character other than
  \<open>%\<close> is copied; \<open>%XX\<close> with a byte below 0x80 gives that character; a lead byte
  announces one to three more \<open>%XX\<close> escapes, and the bytes must be the UTF-8 encoding
  of one code point. Everything else raises URIError, here \<open>None\<close>.
\<close>

definition hex_val :: "char \<Rightarrow> nat option" where
  "hex_val c =
     (let n = (of_char c :: nat) in
      if 48 \<le> n \<and> n \<le> 57 then Some (n - 48)
      else if 65 \<le> n \<and> n \<le> 70 then Some (n - 55)
      else if 97 \<le> n \<and> n \<le> 102 then Some (n - 87)
      else None)"

text \<open>\<open>octet s\<close> reads one escape \<open>%XX\<close> from the front of \<open>s\<close>.\<close>

fun octet :: "string \<Rightarrow> (nat \<times> string) option" where
  "octet (p # h1 # h2 # rest) =
     (if p = CHR ''%'' then
        (case hex_val h1 of
           None \<Rightarrow> None
         | Some a \<Rightarrow> (case hex_val h2 of None \<Rightarrow> None | Some b \<Rightarrow> Some (16 * a + b, rest)))
      else None)"
| "octet _ = None"

fun octets :: "nat \<Rightarrow> string \<Rightarrow> (nat list \<times> string) option" where
  "octets 0 s = Some ([], s)"
| "octets (Suc k) s =
     (case octet s of
        None \<Rightarrow> None
      | Some (b, rest) \<Rightarrow>
          (case octets k rest of None \<Rightarrow> None | Some (bs, rest') \<Rightarrow> Some (b # bs, rest')))"

definition leading_ones :: "nat \<Rightarrow> nat" where
  "leading_ones b =
     (if b < 0x80 then 0 else if b < 0xC0 then 1 else if b < 0xE0 then 2
      else if b < 0xF0 then 3 else if b < 0xF8 then 4 else 5)"

definition continuation :: "nat \<Rightarrow> bool" where
  "continuation b = (0x80 \<le> b \<and> b \<le> 0xBF)"

fun valid_utf8 :: "nat list \<Rightarrow> bool" where
  "valid_utf8 [b0, b1] = (0xC2 \<le> b0 \<and> b0 \<le> 0xDF \<and> continuation b1)"
| "valid_utf8 [b0, b1, b2] =
     ((b0 = 0xE0 \<and> 0xA0 \<le> b1 \<and> b1 \<le> 0xBF
       \<or> (0xE1 \<le> b0 \<and> b0 \<le> 0xEC \<or> b0 = 0xEE \<or> b0 = 0xEF) \<and> continuation b1
       \<or> b0 = 0xED \<and> 0x80 \<le> b1 \<and> b1 \<le> 0x9F)
      \<and> continuation b2)"
| "valid_utf8 [b0, b1, b2, b3] =
     ((b0 = 0xF0 \<and> 0x90 \<le> b1 \<and> b1 \<le> 0xBF
       \<or> 0xF1 \<le> b0 \<and> b0 \<le> 0xF3 \<and> continuation b1
       \<or> b0 = 0xF4 \<and> 0x80 \<le> b1 \<and> b1 \<le> 0x8F)
      \<and> continuation b2 \<and> continuation b3)"
| "valid_utf8 _ = False"

text \<open>
  \<open>escape s\<close> decodes the escape sequence at the front of \<open>s\<close> (which starts with
  \<open>%\<close>): the decoded bytes and the rest of the input.
\<close>

definition escape :: "string \<Rightarrow> (string \<times> string) option" where
  "escape s =
     (case octet s of
        None \<Rightarrow> None
      | Some (b, rest) \<Rightarrow>
          if leading_ones b = 0 then Some ([char_of b], rest)
          else if leading_ones b = 1 \<or> leading_ones b > 4 then None
          else (case octets (leading_ones b - 1) rest of
                  None \<Rightarrow> None
                | Some (bs, rest') \<Rightarrow>
                    if valid_utf8 (b # bs) then Some (map char_of (b # bs), rest') else None))"

lemma octet_shorter: "octet s = Some (b, rest) \<Longrightarrow> length rest < length s"
  by (induction s rule: octet.induct) (auto split: if_splits option.splits)

lemma octets_shorter: "octets k s = Some (bs, rest) \<Longrightarrow> length rest \<le> length s"
proof (induction k arbitrary: s bs rest)
  case 0
  then show ?case by simp
next
  case (Suc k)
  from Suc.prems obtain b r bs' where o: "octet s = Some (b, r)"
    and os: "octets k r = Some (bs', rest)"
    by (auto split: option.splits)
  from Suc.IH [OF os] octet_shorter [OF o] show ?case by simp
qed

lemma escape_shorter: "escape s = Some (bs, rest) \<Longrightarrow> length rest < length s"
  unfolding escape_def
  by (auto split: option.splits if_splits dest!: octet_shorter octets_shorter)

function decodeURIComponent :: "string \<Rightarrow> string option" where
  "decodeURIComponent [] = Some []"
| "decodeURIComponent (c # cs) =
     (if c = CHR ''%'' then
        (case escape (c # cs) of
           None \<Rightarrow> None
         | Some (bs, rest) \<Rightarrow> map_option ((@) bs) (decodeURIComponent rest))
      else map_option ((#) c) (decodeURIComponent cs))"
  by pat_completeness auto
termination
  by (relation "measure length") (auto dest: escape_shorter)

section \<open>Values\<close>

text \<open>
  Data that index.ts receives untyped (\<open>args: unknown\<close>, the page that
  \<open>schemas.notionPage\<close> validates): JSON values and \<open>undefined\<close>. The properties of
  an object are listed in enumeration order with distinct keys; numbers are the
  integers.
\<close>

datatype jsval =
    VUndefined
  | VNull
  | VBool bool
  | VNum int
  | VStr string
  | VArr "jsval list"
  | VObj "(string \<times> jsval) list"

fun truthy :: "jsval \<Rightarrow> bool" where
  "truthy VUndefined = False"
| "truthy VNull = False"
| "truthy (VBool b) = b"
| "truthy (VNum n) = (n \<noteq> 0)"
| "truthy (VStr s) = (s \<noteq> [])"
| "truthy (VArr xs) = True"
| "truthy (VObj ps) = True"

text \<open>ToString, as a template literal applies it.\<close>

fun to_string :: "jsval \<Rightarrow> string"
  and array_to_string :: "jsval list \<Rightarrow> string" where
  "to_string VUndefined = ''undefined''"
| "to_string VNull = ''null''"
| "to_string (VBool b) = (if b then ''true'' else ''false'')"
| "to_string (VNum n) = dec_int n"
| "to_string (VStr s) = s"
| "to_string (VArr xs) = array_to_string xs"
| "to_string (VObj ps) = ''[object Object]''"
| "array_to_string [] = []"
| "array_to_string (x # xs) =
     (if x = VUndefined \<or> x = VNull then [] else to_string x)
     @ (if xs = [] then [] else '','' @ array_to_string xs)"

text \<open>
  The type names of zod's \<open>getParsedType\<close>, which a validation issue reports as
  \<open>received\<close>.
\<close>

fun parsed_type :: "jsval \<Rightarrow> string" where
  "parsed_type VUndefined = ''undefined''"
| "parsed_type VNull = ''null''"
| "parsed_type (VBool b) = ''boolean''"
| "parsed_type (VNum n) = ''number''"
| "parsed_type (VStr s) = ''string''"
| "parsed_type (VArr xs) = ''array''"
| "parsed_type (VObj ps) = ''object''"

section \<open>Failures\<close>

text \<open>
  What a rejected remote call carries, an object: the four properties \<open>formatError\<close>
  reads (\<open>error.status\<close>, \<open>error.code\<close>, \<open>error.body?.message\<close>, \<open>error.message\<close>; \<open>None\<close>
  is \<open>undefined\<close>) and the object's other enumerable properties. The status is a
  number, the code and the two messages are strings, as \<open>Error\<close> and the error classes of
  the Notion SDK declare them. The other properties hold plain data or a reference to
  an object of the heap, and a reference may lead back to an object on the way to it,
  or to the failure object itself, which \<open>obj_id\<close> identifies.
\<close>

datatype xval = Plain jsval | Ref nat

type_synonym heap = "(nat \<times> (string \<times> xval) list) list"

record failure =
  obj_id :: nat
  status :: "int option"
  code :: "string option"
  body_message :: "string option"
  message :: "string option"
  extra :: "(string \<times> xval) list"

datatype zod_issue =
  InvalidType (path: "string list") (expected: string) (received: string)

text \<open>Everything a handler can throw or catch.\<close>

datatype thrown =
    ZodError "zod_issue list"
  | TypeError string
  | URIError string
  | Error string
  | Rejected failure

text \<open>
  \<open>JSON.stringify\<close> keeps a stack of the objects it is inside of and throws a TypeError
  when it meets one of them again. \<open>circular h stack x\<close> says that serialising \<open>x\<close>
  inside the objects of \<open>stack\<close> throws.
\<close>

function circular :: "heap \<Rightarrow> nat list \<Rightarrow> xval \<Rightarrow> bool" where
  "circular h stack (Plain v) = False"
| "circular h stack (Ref a) =
     (if a \<in> set stack then True
      else (case map_of h a of
              None \<Rightarrow> False
            | Some ps \<Rightarrow> list_ex (\<lambda>p. circular h (a # stack) (snd p)) ps))"
  by pat_completeness auto

lemma unvisited_decreases:
  assumes "a \<notin> set stack" and "map_of h a = Some ps"
  shows "length (filter (\<lambda>p. fst p \<notin> set (a # stack)) h)
           < length (filter (\<lambda>p. fst p \<notin> set stack) h)"
proof -
  have split: "filter (\<lambda>p. fst p \<notin> set (a # stack)) h
                 = filter (\<lambda>p. fst p \<noteq> a) (filter (\<lambda>p. fst p \<notin> set stack) h)"
    by (auto intro: filter_cong)
  from assms have "(a, ps) \<in> set (filter (\<lambda>p. fst p \<notin> set stack) h)"
    by (auto dest: map_of_SomeD)
  then have "length (filter (\<lambda>p. fst p \<noteq> a) (filter (\<lambda>p. fst p \<notin> set stack) h))
               < length (filter (\<lambda>p. fst p \<notin> set stack) h)"
    by (rule length_filter_less) simp
  with split show ?thesis by simp
qed

termination circular
  by (relation "measure (\<lambda>(h, stack, x). length (filter (\<lambda>p. fst p \<notin> set stack) h))")
     (auto dest: unvisited_decreases)

definition JSON_stringify_throws :: "heap \<Rightarrow> failure \<Rightarrow> bool" where
  "JSON_stringify_throws h f = list_ex (\<lambda>p. circular h [obj_id f] (snd p)) (extra f)"

section \<open>Remote data\<close>

text \<open>
  What the remote collaborator answers, in the shape of the Notion SDK's response
  objects as far as index.ts reads them. A field the code guards with \<open>?.\<close>, \<open>||\<close> or
  \<open>&&\<close> is optional.
\<close>

record text_run =
  plain_text :: string

text \<open>
  The payload a block keeps under the key of its type: \<open>rich_text\<close> for the text
  blocks, \<open>checked\<close> for \<open>to_do\<close>, and the \<open>title\<close> of \<open>child_page\<close> and
  \<open>child_database\<close> (\<open>child_title\<close>).
\<close>

record payload =
  rich_text :: "text_run list option"
  checked :: "bool option"
  child_title :: "string option"

text \<open>\<open>{ type: string; id: string; [key: string]: any }\<close>\<close>

record block =
  block_type :: string
  block_id :: string
  payloads :: "(string \<times> payload) list"

record page_property =
  property_type :: string
  title :: "text_run list option"

record search_page =
  url :: "string option"
  properties :: "(string \<times> page_property) list option"

record search_response =
  results :: "search_page list option"

section \<open>The environment\<close>

text \<open>
  The heap the failure objects live in, the library functions whose text is not part of
  index.ts (the message zod gives a ZodError, the text \<open>JSON.stringify(v, null, 2)\<close>
  gives JSON data), and the five calls of the Notion client, each answering with a
  response or rejecting with a failure. \<open>pages_settles_first\<close> says which rejection
  \<open>Promise.all\<close> sees first when both of its calls reject. \<open>object_prototype\<close> gives,
  for a name that every object inherits (\<open>toString\<close>, \<open>constructor\<close>, ...), what calling
  that member as a plain function on one argument does: it returns a value or throws
  (as calling a member that is no function does).
\<close>

record env =
  heap :: heap
  zod_message :: "zod_issue list \<Rightarrow> string"
  JSON_stringify :: "jsval \<Rightarrow> string"
  search :: "string \<Rightarrow> failure + search_response"
  blocks_children_list :: "string \<Rightarrow> failure + block list"
  pages_retrieve :: "string \<Rightarrow> failure + jsval"
  databases_query :: "jsval \<Rightarrow> jsval \<Rightarrow> jsval \<Rightarrow> failure + jsval list"
  databases_retrieve :: "jsval \<Rightarrow> failure + (string \<times> jsval) list"
  pages_settles_first :: bool
  object_prototype :: "string \<Rightarrow> (jsval \<Rightarrow> thrown + jsval) option"

text \<open>The calls a handler issued to the remote collaborator, in order.\<close>

datatype remote_call =
    Search string
  | BlocksChildrenList string
  | PagesRetrieve string
  | DatabasesQuery jsval jsval jsval
  | DatabasesRetrieve jsval

text \<open>\<open>{ content: [{ type: "text", text }] }\<close>\<close>

record content_item =
  ctype :: string
  ctext :: string

record envelope =
  content :: "content_item list"

definition text_envelope :: "string \<Rightarrow> envelope" where
  "text_envelope s = \<lparr>content = [\<lparr>ctype = ''text'', ctext = s\<rparr>]\<rparr>"

section \<open>Validation schemas\<close>

definition lookup :: "(string \<times> jsval) list \<Rightarrow> string \<Rightarrow> jsval" where
  "lookup ps k = (case map_of ps k of None \<Rightarrow> VUndefined | Some v \<Rightarrow> v)"

definition string_at :: "(string \<times> jsval) list \<Rightarrow> string \<Rightarrow> zod_issue list + string" where
  "string_at ps k =
     (case lookup ps k of
        VStr s \<Rightarrow> Inr s
      | v \<Rightarrow> Inl [InvalidType [k] ''string'' (parsed_type v)])"

text \<open>
  \<open>z.object({ key: z.string() }).parse(args)\<close>: the three schemas of
  \<open>schemas.toolInputs\<close>.
\<close>

definition string_object_parse :: "string \<Rightarrow> jsval \<Rightarrow> thrown + string" where
  "string_object_parse key args =
     (case args of
        VObj ps \<Rightarrow> (case string_at ps key of Inl issues \<Rightarrow> Inl (ZodError issues) | Inr s \<Rightarrow> Inr s)
      | v \<Rightarrow> Inl (ZodError [InvalidType [] ''object'' (parsed_type v)]))"

definition searchPages_parse :: "jsval \<Rightarrow> thrown + string" where
  "searchPages_parse = string_object_parse ''query''"

definition readPage_parse :: "jsval \<Rightarrow> thrown + string" where
  "readPage_parse = string_object_parse ''pageId''"

definition retrieveDatabase_parse :: "jsval \<Rightarrow> thrown + string" where
  "retrieveDatabase_parse = string_object_parse ''databaseId''"

text \<open>
  \<open>schemas.notionPage\<close>. A property value is the union of the title shape and
  \<open>z.any()\<close>: a value of the title shape is kept as its text runs, any other value as
  it is.
\<close>

datatype parsed_property = TitleProperty "string list" | OtherProperty jsval

record notion_page =
  page_id :: string
  page_url :: string
  page_properties :: "(string \<times> parsed_property) list"

fun runs_parse :: "jsval list \<Rightarrow> string list option" where
  "runs_parse [] = Some []"
| "runs_parse (VObj ps # xs) =
     (case lookup ps ''plain_text'' of
        VStr s \<Rightarrow> map_option ((#) s) (runs_parse xs)
      | _ \<Rightarrow> None)"
| "runs_parse (_ # xs) = None"

definition title_shape :: "jsval \<Rightarrow> string list option" where
  "title_shape v =
     (case v of
        VObj ps \<Rightarrow>
          if lookup ps ''type'' = VStr ''title'' then
            (case lookup ps ''title'' of VArr xs \<Rightarrow> runs_parse xs | _ \<Rightarrow> None)
          else None
      | _ \<Rightarrow> None)"

definition property_parse :: "jsval \<Rightarrow> parsed_property" where
  "property_parse v = (case title_shape v of Some rs \<Rightarrow> TitleProperty rs | None \<Rightarrow> OtherProperty v)"

definition record_at ::
  "(string \<times> jsval) list \<Rightarrow> string \<Rightarrow> zod_issue list + (string \<times> parsed_property) list" where
  "record_at ps k =
     (case lookup ps k of
        VObj qs \<Rightarrow> Inr (map (\<lambda>(name, v). (name, property_parse v)) qs)
      | v \<Rightarrow> Inl [InvalidType [k] ''object'' (parsed_type v)])"

definition issues_of :: "zod_issue list + 'a \<Rightarrow> zod_issue list" where
  "issues_of r = (case r of Inl issues \<Rightarrow> issues | Inr x \<Rightarrow> [])"

definition notionPage_parse :: "jsval \<Rightarrow> thrown + notion_page" where
  "notionPage_parse v =
     (case v of
        VObj ps \<Rightarrow>
          (case (string_at ps ''id'', string_at ps ''url'', record_at ps ''properties'') of
             (Inr i, Inr u, Inr props) \<Rightarrow>
               Inr \<lparr>page_id = i, page_url = u, page_properties = props\<rparr>
           | (a, b, c) \<Rightarrow> Inl (ZodError (issues_of a @ issues_of b @ issues_of c)))
      | _ \<Rightarrow> Inl (ZodError [InvalidType [] ''object'' (parsed_type v)]))"

section \<open>The error normalizer\<close>

text \<open>
  The object \<open>formatError\<close> reads when it is handed what a \<open>catch\<close> caught: a
  rejection's failure, or an error raised locally, which has a message and nothing that
  refers to another object.
\<close>

definition local_error :: "string \<Rightarrow> failure" where
  "local_error m =
     \<lparr>obj_id = 0, status = None, code = None, body_message = None, message = Some m,
      extra = []\<rparr>"

fun as_failure :: "env \<Rightarrow> thrown \<Rightarrow> failure" where
  "as_failure env (Rejected f) = f"
| "as_failure env (ZodError issues) = local_error (zod_message env issues)"
| "as_failure env (TypeError m) = local_error m"
| "as_failure env (URIError m) = local_error m"
| "as_failure env (Error m) = local_error m"

text \<open>\<open>error.body?.message || error.message\<close>\<close>

definition detail :: "failure \<Rightarrow> string option" where
  "detail f =
     (case body_message f of
        None \<Rightarrow> message f
      | Some m \<Rightarrow> if m \<noteq> [] then Some m else message f)"

text \<open>A value that is a string or \<open>undefined\<close>, inside a template literal.\<close>

fun interpolate :: "string option \<Rightarrow> string" where
  "interpolate None = ''undefined''"
| "interpolate (Some s) = s"

definition unknown_error :: string where
  "unknown_error = ''An unknown error occurred''"

text \<open>
  Line 84 serialises the failure for the log before anything else, outside any \<open>try\<close>;
  \<open>console.error\<close> itself does not throw and what it prints is not modelled.
\<close>

definition formatError :: "env \<Rightarrow> thrown \<Rightarrow> thrown + string" where
  "formatError env error =
     (let f = as_failure env error in
      if JSON_stringify_throws (heap env) f then
        Inl (TypeError ''Converting circular structure to JSON'')
      else if status f = Some 404 then
        Inr (''Resource not found. Please check the provided ID. Details: ''
             @ interpolate (detail f))
      else if status f = Some 401 then
        Inr (''Authentication error. Please check your API token. Details: ''
             @ interpolate (detail f))
      else if status f = Some 400 then
        Inr (''Bad request. Details: '' @ interpolate (detail f))
      else if code f \<noteq> None \<and> code f \<noteq> Some [] then
        Inr (''API Error ('' @ interpolate (code f) @ ''): '' @ interpolate (detail f))
      else
        Inr (case detail f of
               None \<Rightarrow> unknown_error
             | Some m \<Rightarrow> if m \<noteq> [] then m else unknown_error))"

section \<open>The document renderer\<close>

subsection \<open>Title resolution\<close>

definition sq :: string where
  "sq = [CHR 0x27]"

definition cannot_read :: "string \<Rightarrow> string \<Rightarrow> thrown" where
  "cannot_read what k =
     TypeError (''Cannot read properties of '' @ what @ '' (reading '' @ sq @ k @ sq @ '')'')"

text \<open>
  \<open>v.k\<close> for a key \<open>k\<close> of the data (\<open>type\<close>, \<open>title\<close>, \<open>plain_text\<close>, \<open>databaseId\<close>, ...),
  which no prototype provides: a TypeError on \<open>undefined\<close> and \<open>null\<close>, the property of
  an object, \<open>undefined\<close> on every other value.
\<close>

fun get_prop :: "jsval \<Rightarrow> string \<Rightarrow> thrown + jsval" where
  "get_prop VUndefined k = Inl (cannot_read ''undefined'' k)"
| "get_prop VNull k = Inl (cannot_read ''null'' k)"
| "get_prop (VObj ps) k = Inr (lookup ps k)"
| "get_prop v k = Inr VUndefined"

text \<open>\<open>v?.k\<close>\<close>

fun opt_prop :: "jsval \<Rightarrow> string \<Rightarrow> jsval" where
  "opt_prop (VObj ps) k = lookup ps k"
| "opt_prop v k = VUndefined"

text \<open>
  \<open>t[0]?.plain_text\<close>: the first element of an array, the property \<open>0\<close> of an object;
  the first character of a string and every index of a number or a boolean have no
  \<open>plain_text\<close>.
\<close>

fun first_plain_text :: "jsval \<Rightarrow> thrown + jsval" where
  "first_plain_text VUndefined = Inl (cannot_read ''undefined'' ''0'')"
| "first_plain_text VNull = Inl (cannot_read ''null'' ''0'')"
| "first_plain_text (VArr []) = Inr VUndefined"
| "first_plain_text (VArr (x # xs)) = Inr (opt_prop x ''plain_text'')"
| "first_plain_text (VObj ps) = Inr (opt_prop (lookup ps ''0'') ''plain_text'')"
| "first_plain_text v = Inr VUndefined"

text \<open>\<open>Object.values(page.properties).find((prop) => prop.type === "title")\<close>\<close>

fun find_title :: "parsed_property list \<Rightarrow> thrown + parsed_property option" where
  "find_title [] = Inr None"
| "find_title (TitleProperty rs # ps) = Inr (Some (TitleProperty rs))"
| "find_title (OtherProperty v # ps) =
     (case get_prop v ''type'' of
        Inl e \<Rightarrow> Inl e
      | Inr t \<Rightarrow> if t = VStr ''title'' then Inr (Some (OtherProperty v)) else find_title ps)"

definition page_title :: "notion_page \<Rightarrow> thrown + string" where
  "page_title page =
     (case find_title (map snd (page_properties page)) of
        Inl e \<Rightarrow> Inl e
      | Inr None \<Rightarrow> Inr ''Untitled''
      | Inr (Some (TitleProperty rs)) \<Rightarrow>
          Inr (case rs of [] \<Rightarrow> ''Untitled'' | r # rest \<Rightarrow> if r \<noteq> [] then r else ''Untitled'')
      | Inr (Some (OtherProperty v)) \<Rightarrow>
          (case get_prop v ''title'' of
             Inl e \<Rightarrow> Inl e
           | Inr t \<Rightarrow>
               (case first_plain_text t of
                  Inl e \<Rightarrow> Inl e
                | Inr x \<Rightarrow> Inr (if truthy x then to_string x else ''Untitled''))))"

subsection \<open>Block traversal\<close>

text \<open>
  \<open>block[k]\<close>: the keys \<open>type\<close> and \<open>id\<close> hold strings, which have no \<open>rich_text\<close>, no
  \<open>checked\<close> and no \<open>title\<close>; every other key holds a payload or nothing.
\<close>

definition block_field :: "block \<Rightarrow> string \<Rightarrow> payload option" where
  "block_field b k = (if k = ''type'' \<or> k = ''id'' then None else map_of (payloads b) k)"

text \<open>\<open>block[type]?.rich_text?.map((text) => text.plain_text).join("") || ""\<close>\<close>

definition textContent :: "block \<Rightarrow> string" where
  "textContent b =
     (case block_field b (block_type b) of
        None \<Rightarrow> []
      | Some p \<Rightarrow> (case rich_text p of None \<Rightarrow> [] | Some runs \<Rightarrow> concat (map plain_text runs)))"

text \<open>\<open>block.to_do?.checked ? "[x]" : "[ ]"\<close>\<close>

definition checked_mark :: "block \<Rightarrow> string" where
  "checked_mark b =
     (case block_field b ''to_do'' of
        None \<Rightarrow> ''[ ]''
      | Some p \<Rightarrow> if checked p = Some True then ''[x]'' else ''[ ]'')"

definition fence :: string where
  "fence = [CHR 0x60, CHR 0x60, CHR 0x60]"

text \<open>The \<open>switch\<close> of lines 262 to 282.\<close>

definition formattedContent :: "block \<Rightarrow> string" where
  "formattedContent b =
     (let type = block_type b in
      if type = ''paragraph'' \<or> type = ''heading_1'' \<or> type = ''heading_2''
         \<or> type = ''heading_3'' then textContent b
      else if type = ''bulleted_list_item'' \<or> type = ''numbered_list_item'' then
        bullet @ '' '' @ textContent b
      else if type = ''to_do'' then checked_mark b @ '' '' @ textContent b
      else if type = ''code'' then fence @ nl @ textContent b @ nl @ fence
      else textContent b)"

text \<open>
  \<open>`<marker> ${block.child_page.title || "Untitled Page"} (ID: ${block.id.replace(/-/g, "")})`\<close>:
  reading \<open>title\<close> of a payload that is not there is a TypeError.
\<close>

definition child_line :: "string \<Rightarrow> string \<Rightarrow> string \<Rightarrow> block \<Rightarrow> thrown + string" where
  "child_line marker key fallback b =
     (case block_field b key of
        None \<Rightarrow> Inl (cannot_read ''undefined'' ''title'')
      | Some p \<Rightarrow>
          Inr (marker @ '' ''
               @ (case child_title p of None \<Rightarrow> fallback
                  | Some t \<Rightarrow> if t \<noteq> [] then t else fallback)
               @ '' (ID: '' @ filter (\<lambda>c. c \<noteq> CHR ''-'') (block_id b) @ '')''))"

record rendering =
  childPages :: "string list"
  childDatabases :: "string list"
  contentBlocks :: "string list"

text \<open>One turn of the loop of lines 246 to 287.\<close>

definition render_block :: "block \<Rightarrow> rendering \<Rightarrow> thrown + rendering" where
  "render_block b r =
     (if block_type b = ''child_page'' then
        (case child_line page_marker ''child_page'' ''Untitled Page'' b of
           Inl e \<Rightarrow> Inl e
         | Inr line \<Rightarrow> Inr (r\<lparr>childPages := childPages r @ [line]\<rparr>))
      else if block_type b = ''child_database'' then
        (case child_line database_marker ''child_database'' ''Untitled Database'' b of
           Inl e \<Rightarrow> Inl e
         | Inr line \<Rightarrow> Inr (r\<lparr>childDatabases := childDatabases r @ [line]\<rparr>))
      else if formattedContent b \<noteq> [] then
        Inr (r\<lparr>contentBlocks := contentBlocks r @ [formattedContent b]\<rparr>)
      else Inr r)"

fun render_blocks :: "block list \<Rightarrow> rendering \<Rightarrow> thrown + rendering" where
  "render_blocks [] r = Inr r"
| "render_blocks (b # bs) r =
     (case render_block b r of Inl e \<Rightarrow> Inl e | Inr r' \<Rightarrow> render_blocks bs r')"

subsection \<open>Assembly\<close>

definition assemble :: "string \<Rightarrow> rendering \<Rightarrow> string" where
  "assemble t r =
     ''# '' @ t @ nl @ nl
     @ (if contentBlocks r \<noteq> [] then join nl (contentBlocks r) @ nl @ nl else [])
     @ (if childPages r \<noteq> [] then ''## Child Pages'' @ nl @ join nl (childPages r) @ nl @ nl
        else [])
     @ (if childDatabases r \<noteq> [] then
          ''## Child Databases'' @ nl @ join nl (childDatabases r) @ nl
        else [])"

definition render_document :: "notion_page \<Rightarrow> block list \<Rightarrow> thrown + string" where
  "render_document page blocks =
     (case page_title page of
        Inl e \<Rightarrow> Inl e
      | Inr t \<Rightarrow>
          (case render_blocks blocks \<lparr>childPages = [], childDatabases = [], contentBlocks = []\<rparr> of
             Inl e \<Rightarrow> Inl e
           | Inr r \<Rightarrow> Inr (trim (assemble t r))))"

section \<open>The search result summarizer\<close>

text \<open>
  \<open>page.url.match(/\/([^/]+)-[^/]+$/)\<close>, the first group. After the \<open>/\<close> the
  pattern admits no further \<open>/\<close> up to the end of the input, so only the last \<open>/\<close> can
  start a match, and what follows it must split as \<open>a-b\<close> with \<open>a\<close> and \<open>b\<close> not
  empty; the group is greedy, so \<open>a\<close> ends at the last \<open>-\<close> that leaves a character
  behind it.
\<close>

definition url_slug :: "string \<Rightarrow> string option" where
  "url_slug u =
     (if CHR ''/'' \<notin> set u then None
      else
        (let segment = rev (takeWhile (\<lambda>c. c \<noteq> CHR ''/'') (rev u))
         in case dropWhile (\<lambda>c. c \<noteq> CHR ''-'') (rev (butlast segment)) of
              [] \<Rightarrow> None
            | hyphen # a \<Rightarrow> if a = [] then None else Some (rev a)))"

text \<open>\<open>decodeURIComponent(urlMatch[1].replace(/-/g, ' '))\<close>\<close>

definition slug_title :: "string \<Rightarrow> thrown + string" where
  "slug_title slug =
     (case decodeURIComponent (map (\<lambda>c. if c = CHR ''-'' then CHR '' '' else c) slug) of
        None \<Rightarrow> Inl (URIError ''URI malformed'')
      | Some t \<Rightarrow> Inr t)"

text \<open>\<open>page.properties.title || page.properties.Name\<close>\<close>

definition title_property :: "(string \<times> page_property) list \<Rightarrow> page_property option" where
  "title_property props =
     (case map_of props ''title'' of Some p \<Rightarrow> Some p | None \<Rightarrow> map_of props ''Name'')"

text \<open>\<open>titleProperty?.title?.[0]?.plain_text\<close>\<close>

definition first_run :: "page_property option \<Rightarrow> string option" where
  "first_run p =
     (case p of
        None \<Rightarrow> None
      | Some q \<Rightarrow> (case title q of None \<Rightarrow> None | Some [] \<Rightarrow> None | Some (r # rs) \<Rightarrow> Some (plain_text r)))"

text \<open>The second stage, lines 202 to 207, entered with the title so far.\<close>

definition from_properties :: "search_page \<Rightarrow> string \<Rightarrow> string" where
  "from_properties page t =
     (if t = ''Untitled'' then
        (case properties page of
           None \<Rightarrow> t
         | Some props \<Rightarrow>
             (case first_run (title_property props) of
                None \<Rightarrow> t
              | Some s \<Rightarrow> if s \<noteq> [] then s else t))
      else t)"

text \<open>The body of the \<open>try\<close> of lines 195 to 207: the title it leaves, or what it throws.\<close>

definition extract_title :: "search_page \<Rightarrow> thrown + string" where
  "extract_title page =
     (case url page of
        None \<Rightarrow> Inl (cannot_read ''undefined'' ''match'')
      | Some u \<Rightarrow>
          (case url_slug u of
             None \<Rightarrow> Inr (from_properties page ''Untitled'')
           | Some slug \<Rightarrow>
               (case slug_title slug of
                  Inl e \<Rightarrow> Inl e
                | Inr t \<Rightarrow> Inr (from_properties page t))))"

text \<open>The \<open>catch\<close> only logs: the title is still the initial \<open>"Untitled"\<close>.\<close>

definition search_title :: "search_page \<Rightarrow> string" where
  "search_title page = (case extract_title page of Inl e \<Rightarrow> ''Untitled'' | Inr t \<Rightarrow> t)"

definition result_line :: "search_page \<Rightarrow> string" where
  "result_line page =
     bullet @ '' '' @ search_title page @ nl @ ''  Link: '' @ interpolate (url page)"

definition no_pages :: "string \<Rightarrow> string" where
  "no_pages query = ''No pages found matching '' @ dq @ query @ dq"

definition search_summary :: "string \<Rightarrow> search_page list \<Rightarrow> string" where
  "search_summary query pages =
     ''Found '' @ dec (length pages) @ '' pages matching '' @ dq @ query @ dq @ '':'' @ nl @ nl
     @ join (nl @ nl) (map result_line pages)"

section \<open>The tool handlers\<close>

text \<open>
  A handler returns an envelope or throws, and issues calls to the remote collaborator
  on the way.
\<close>

type_synonym outcome = "(thrown + envelope) \<times> remote_call list"

definition search_pages :: "env \<Rightarrow> jsval \<Rightarrow> outcome" where
  "search_pages env args =
     (case searchPages_parse args of
        Inl e \<Rightarrow> (Inl e, [])
      | Inr query \<Rightarrow>
          (case search env query of
             Inl f \<Rightarrow> (Inl (Rejected f), [Search query])
           | Inr response \<Rightarrow>
               (case results response of
                  None \<Rightarrow> (Inr (text_envelope (no_pages query)), [Search query])
                | Some pages \<Rightarrow>
                    if pages = [] then (Inr (text_envelope (no_pages query)), [Search query])
                    else (Inr (text_envelope (search_summary query pages)), [Search query]))))"

text \<open>
  \<open>Promise.all\<close> of the two calls of lines 231 and 232: both are issued; it rejects with
  the rejection that arrives first.
\<close>

definition promise_all :: "env \<Rightarrow> string \<Rightarrow> failure + block list \<times> jsval" where
  "promise_all env pageId =
     (case (blocks_children_list env pageId, pages_retrieve env pageId) of
        (Inr blocks, Inr page) \<Rightarrow> Inr (blocks, page)
      | (Inl f, Inr page) \<Rightarrow> Inl f
      | (Inr blocks, Inl g) \<Rightarrow> Inl g
      | (Inl f, Inl g) \<Rightarrow> Inl (if pages_settles_first env then g else f))"

text \<open>The body of the \<open>try\<close> of lines 229 to 311.\<close>

definition read_page_try :: "env \<Rightarrow> string \<Rightarrow> thrown + string" where
  "read_page_try env pageId =
     (case promise_all env pageId of
        Inl f \<Rightarrow> Inl (Rejected f)
      | Inr (blocks, pageResponse) \<Rightarrow>
          (case notionPage_parse pageResponse of
             Inl e \<Rightarrow> Inl e
           | Inr page \<Rightarrow> render_document page blocks))"

definition read_page :: "env \<Rightarrow> jsval \<Rightarrow> outcome" where
  "read_page env args =
     (case readPage_parse args of
        Inl e \<Rightarrow> (Inl e, [])
      | Inr pageId \<Rightarrow>
          (case read_page_try env pageId of
             Inr output \<Rightarrow> (Inr (text_envelope output), [BlocksChildrenList pageId, PagesRetrieve pageId])
           | Inl error \<Rightarrow>
               (case formatError env error of
                  Inl e \<Rightarrow> (Inl e, [BlocksChildrenList pageId, PagesRetrieve pageId])
                | Inr m \<Rightarrow>
                    (Inr (text_envelope m), [BlocksChildrenList pageId, PagesRetrieve pageId]))))"

text \<open>
  \<open>const { databaseId, ... } = args as any\<close>: destructuring \<open>undefined\<close> or \<open>null\<close> is a
  TypeError; any other value gives each name its property, or \<open>undefined\<close>.
\<close>

definition cannot_destructure :: "jsval \<Rightarrow> thrown" where
  "cannot_destructure args =
     TypeError (''Cannot destructure property '' @ sq @ ''databaseId'' @ sq @ '' of '' @ sq
                @ ''args'' @ sq @ '' as it is '' @ to_string args @ ''.'')"

definition query_database :: "env \<Rightarrow> jsval \<Rightarrow> outcome" where
  "query_database env args =
     (if args = VUndefined \<or> args = VNull then (Inl (cannot_destructure args), [])
      else
        (let databaseId = opt_prop args ''databaseId'';
             filter = opt_prop args ''filter'';
             sort = opt_prop args ''sort'';
             sorts = (if truthy sort then VArr [sort] else VUndefined);
             calls = [DatabasesQuery databaseId filter sorts]
         in case databases_query env databaseId filter sorts of
              Inr rows \<Rightarrow> (Inr (text_envelope (JSON_stringify env (VArr rows))), calls)
            | Inl f \<Rightarrow>
                (case formatError env (Rejected f) of
                   Inl e \<Rightarrow> (Inl e, calls)
                 | Inr m \<Rightarrow> (Inr (text_envelope (''Error querying database: '' @ m)), calls))))"

definition retrieve_database :: "env \<Rightarrow> jsval \<Rightarrow> outcome" where
  "retrieve_database env args =
     (if args = VUndefined \<or> args = VNull then (Inl (cannot_destructure args), [])
      else
        (let databaseId = opt_prop args ''databaseId'';
             calls = [DatabasesRetrieve databaseId]
         in case databases_retrieve env databaseId of
              Inr response \<Rightarrow> (Inr (text_envelope (JSON_stringify env (VObj response))), calls)
            | Inl f \<Rightarrow>
                (case formatError env (Rejected f) of
                   Inl e \<Rightarrow> (Inl e, calls)
                 | Inr m \<Rightarrow> (Inr (text_envelope m), calls))))"

section \<open>The invocation gateway\<close>

text \<open>
  \<open>toolHandlers[name]\<close>: one of the four handlers the object declares, or a member the
  object inherits, or \<open>undefined\<close>.
\<close>

datatype member =
    Handler "env \<Rightarrow> jsval \<Rightarrow> outcome"
  | Inherited "jsval \<Rightarrow> thrown + jsval"

definition toolHandlers :: "env \<Rightarrow> string \<Rightarrow> member option" where
  "toolHandlers env name =
     (if name = ''search_pages'' then Some (Handler search_pages)
      else if name = ''read_page'' then Some (Handler read_page)
      else if name = ''query_database'' then Some (Handler query_database)
      else if name = ''retrieve_database'' then Some (Handler retrieve_database)
      else map_option Inherited (object_prototype env name))"

text \<open>
  What the request handler of lines 403 to 417 hands to the transport: the envelope of
  a handler, or whatever an inherited member returned. Its \<open>catch\<close> logs and throws
  again.
\<close>

datatype reply = Envelope envelope | Returned jsval

definition call_tool :: "env \<Rightarrow> string \<Rightarrow> jsval \<Rightarrow> (thrown + reply) \<times> remote_call list" where
  "call_tool env name args =
     (case toolHandlers env name of
        None \<Rightarrow> (Inl (Error (''Unknown tool: '' @ name)), [])
      | Some (Handler handler) \<Rightarrow>
          (case handler env args of
             (Inl e, calls) \<Rightarrow> (Inl e, calls)
           | (Inr envelope, calls) \<Rightarrow> (Inr (Envelope envelope), calls))
      | Some (Inherited f) \<Rightarrow>
          (case f args of Inl e \<Rightarrow> (Inl e, []) | Inr v \<Rightarrow> (Inr (Returned v), [])))"

section \<open>Block classes\<close>

text \<open>The type discriminants the loop of \<open>read_page\<close> has a branch for.\<close>

definition recognized :: "string list" where
  "recognized =
     [''child_page'', ''child_database'', ''paragraph'', ''heading_1'', ''heading_2'',
      ''heading_3'', ''bulleted_list_item'', ''numbered_list_item'', ''to_do'', ''code'']"

text \<open>The blocks the loop files under the child lists and leaves with \<open>continue\<close>.\<close>

definition is_child :: "block \<Rightarrow> bool" where
  "is_child b = (block_type b = ''child_page'' \<or> block_type b = ''child_database'')"

section \<open>Example data\<close>

text \<open>
  A page titled Notes, as \<open>pages.retrieve\<close> answers it, and a block list of one paragraph
  with the text Hello and one checklist item with the text Buy milk that is not checked.
\<close>

definition notes_page :: "string \<Rightarrow> string \<Rightarrow> jsval" where
  "notes_page i u =
     VObj [(''id'', VStr i), (''url'', VStr u),
           (''properties'',
            VObj [(''title'',
                   VObj [(''id'', VStr ''title''), (''type'', VStr ''title''),
                         (''title'', VArr [VObj [(''plain_text'', VStr ''Notes'')]])])])]"

definition notes_blocks :: "string \<Rightarrow> string \<Rightarrow> block list" where
  "notes_blocks i j =
     [\<lparr>block_type = ''paragraph'', block_id = i,
       payloads = [(''paragraph'',
                    \<lparr>rich_text = Some [\<lparr>plain_text = ''Hello''\<rparr>], checked = None,
                     child_title = None\<rparr>)]\<rparr>,
      \<lparr>block_type = ''to_do'', block_id = j,
       payloads = [(''to_do'',
                    \<lparr>rich_text = Some [\<lparr>plain_text = ''Buy milk''\<rparr>], checked = Some False,
                     child_title = None\<rparr>)]\<rparr>]"

text \<open>
  An environment in which every remote call rejects with the same failure, and four
  failures: a 404 of the Notion API, a 401, a failure without status and code whose
  nested message is \<open>inner\<close> and whose own message is \<open>outer\<close>, and a 404 whose property
  \<open>self\<close> is the failure object itself.
\<close>

definition offline :: "heap \<Rightarrow> failure \<Rightarrow> env" where
  "offline h f =
     \<lparr>heap = h,
      zod_message = (\<lambda>issues. ''Invalid input''),
      JSON_stringify = (\<lambda>v. ''null''),
      search = (\<lambda>query. Inl f),
      blocks_children_list = (\<lambda>block_id. Inl f),
      pages_retrieve = (\<lambda>page_id. Inl f),
      databases_query = (\<lambda>database_id filter sorts. Inl f),
      databases_retrieve = (\<lambda>database_id. Inl f),
      pages_settles_first = False,
      object_prototype = (\<lambda>name. None)\<rparr>"

definition not_found :: failure where
  "not_found =
     \<lparr>obj_id = 0, status = Some 404, code = Some ''object_not_found'',
      body_message = Some ''Could not find page'', message = Some ''Request failed'',
      extra = [(''name'', Plain (VStr ''APIResponseError''))]\<rparr>"

definition unauthorized :: failure where
  "unauthorized =
     \<lparr>obj_id = 0, status = Some 401, code = Some ''unauthorized'',
      body_message = None, message = Some ''API token is invalid.'', extra = []\<rparr>"

definition two_messages :: failure where
  "two_messages =
     \<lparr>obj_id = 0, status = None, code = None,
      body_message = Some ''inner'', message = Some ''outer'', extra = []\<rparr>"

definition self_referencing :: failure where
  "self_referencing =
     \<lparr>obj_id = 0, status = Some 404, code = Some ''object_not_found'',
      body_message = None, message = Some ''Could not find page'',
      extra = [(''self'', Ref 0)]\<rparr>"

text \<open>
  Three search results: a page whose URL carries a slug, a page whose URL carries none
  and whose title property is named Name, and a page whose URL carries none and whose
  title property is named Task.
\<close>

definition roadmap_page :: search_page where
  "roadmap_page = \<lparr>url = Some ''https://www.notion.so/Q3-Roadmap-abc123'', properties = None\<rparr>"

definition name_page :: search_page where
  "name_page =
     \<lparr>url = Some ''https://www.notion.so/0123456789abcdef0123456789abcdef'',
      properties =
        Some [(''Name'', \<lparr>property_type = ''title'', title = Some [\<lparr>plain_text = ''Plan''\<rparr>]\<rparr>)]\<rparr>"

definition task_page :: search_page where
  "task_page =
     \<lparr>url = Some ''https://www.notion.so/0123456789abcdef0123456789abcdef'',
      properties =
        Some [(''Task'', \<lparr>property_type = ''title'', title = Some [\<lparr>plain_text = ''Plan''\<rparr>]\<rparr>)]\<rparr>"

text \<open>
  Blocks without text: a paragraph, a bulleted list item, a checklist item that is not
  checked and one that is, a code block; and a block of a type the renderer has no
  branch for, with the text Note.
\<close>

definition no_text :: payload where
  "no_text = \<lparr>rich_text = Some [], checked = None, child_title = None\<rparr>"

definition empty_paragraph :: block where
  "empty_paragraph =
     \<lparr>block_type = ''paragraph'', block_id = ''b1'', payloads = [(''paragraph'', no_text)]\<rparr>"

definition empty_to_do :: block where
  "empty_to_do = \<lparr>block_type = ''to_do'', block_id = ''b2'', payloads = [(''to_do'', no_text)]\<rparr>"

definition empty_bulleted :: block where
  "empty_bulleted =
     \<lparr>block_type = ''bulleted_list_item'', block_id = ''b5'',
      payloads = [(''bulleted_list_item'', no_text)]\<rparr>"

definition checked_to_do :: block where
  "checked_to_do =
     \<lparr>block_type = ''to_do'', block_id = ''b6'',
      payloads = [(''to_do'', \<lparr>rich_text = Some [], checked = Some True, child_title = None\<rparr>)]\<rparr>"

definition empty_code :: block where
  "empty_code = \<lparr>block_type = ''code'', block_id = ''b3'', payloads = [(''code'', no_text)]\<rparr>"

definition callout :: block where
  "callout =
     \<lparr>block_type = ''callout'', block_id = ''b4'',
      payloads = [(''callout'',
                   \<lparr>rich_text = Some [\<lparr>plain_text = ''Note''\<rparr>], checked = None,
                    child_title = None\<rparr>)]\<rparr>"

definition blank :: rendering where
  "blank = \<lparr>childPages = [], childDatabases = [], contentBlocks = []\<rparr>"

section \<open>The document renderer on the Notes page\<close>

lemma trim_notes:
  "trim (''# Notes'' @ nl @ nl @ ''Hello'' @ nl @ ''[ ] Buy milk'' @ nl @ nl)
     = ''# Notes'' @ nl @ nl @ ''Hello'' @ nl @ ''[ ] Buy milk''"
  by (simp add: trim_def trimStart_def trimEnd_def white_space_def nl_def strip.simps)

lemma notionPage_parse_notes:
  "notionPage_parse (notes_page i u)
     = Inr \<lparr>page_id = i, page_url = u, page_properties = [(''title'', TitleProperty [''Notes''])]\<rparr>"
  by (simp add: notionPage_parse_def notes_page_def string_at_def record_at_def lookup_def
      property_parse_def title_shape_def)

lemma render_blocks_notes:
  "render_blocks (notes_blocks i j) \<lparr>childPages = [], childDatabases = [], contentBlocks = []\<rparr>
     = Inr \<lparr>childPages = [], childDatabases = [], contentBlocks = [''Hello'', ''[ ] Buy milk'']\<rparr>"
  by (simp add: notes_blocks_def render_block_def formattedContent_def textContent_def
      block_field_def checked_mark_def)

lemma render_document_notes:
  "render_document
     \<lparr>page_id = i, page_url = u, page_properties = [(''title'', TitleProperty [''Notes''])]\<rparr>
     (notes_blocks b1 b2)
     = Inr (''# Notes'' @ nl @ nl @ ''Hello'' @ nl @ ''[ ] Buy milk'')"
proof -
  have "assemble ''Notes''
          \<lparr>childPages = [], childDatabases = [], contentBlocks = [''Hello'', ''[ ] Buy milk'']\<rparr>
        = ''# Notes'' @ nl @ nl @ ''Hello'' @ nl @ ''[ ] Buy milk'' @ nl @ nl"
    by (simp add: assemble_def)
  then have "trim (assemble ''Notes''
          \<lparr>childPages = [], childDatabases = [], contentBlocks = [''Hello'', ''[ ] Buy milk'']\<rparr>)
        = ''# Notes'' @ nl @ nl @ ''Hello'' @ nl @ ''[ ] Buy milk''"
    by (simp only: trim_notes)
  then show ?thesis
    by (simp add: render_document_def page_title_def render_blocks_notes)
qed

lemma read_page_try_notes:
  "read_page_try
     (env\<lparr>blocks_children_list := \<lambda>pageId. Inr (notes_blocks b1 b2),
          pages_retrieve := \<lambda>pageId. Inr (notes_page i u)\<rparr>) pid
   = Inr (''# Notes'' @ nl @ nl @ ''Hello'' @ nl @ ''[ ] Buy milk'')"
  by (simp add: read_page_try_def promise_all_def notionPage_parse_notes render_document_notes)

text \<open>
  C3. Whatever the environment otherwise is, when the remote collaborator answers
  \<open>read_page\<close> with the page titled Notes and the block list of the paragraph Hello and
  the unchecked checklist item Buy milk, the handler returns the envelope whose text is
  exactly \<open># Notes\<close>, an empty line, \<open>Hello\<close>, and \<open>[ ] Buy milk\<close> on the next line.
\<close>

theorem read_page_notes:
  "fst (read_page
          (env\<lparr>blocks_children_list := \<lambda>pageId. Inr (notes_blocks b1 b2),
               pages_retrieve := \<lambda>pageId. Inr (notes_page i u)\<rparr>)
          (VObj [(''pageId'', VStr pid)]))
     = Inr \<lparr>content =
             [\<lparr>ctype = ''text'',
               ctext = ''# Notes'' @ [CHR 0x0A, CHR 0x0A] @ ''Hello'' @ [CHR 0x0A]
                       @ ''[ ] Buy milk''\<rparr>]\<rparr>"
  by (simp add: read_page_def readPage_parse_def string_object_parse_def string_at_def
      lookup_def read_page_try_notes text_envelope_def nl_def)

section \<open>The error normalizer's classification\<close>

text \<open>
  C4, as stated, fails: with no status and no code the normalizer does not return the
  object's own message when the failure also carries a nested detail message. On
  \<open>two_messages\<close>, which the log serialises without trouble, it returns \<open>inner\<close>, not
  \<open>outer\<close>.
\<close>

theorem formatError_own_message_counterexample:
  "status two_messages = None
   \<and> code two_messages = None
   \<and> body_message two_messages = Some ''inner''
   \<and> message two_messages = Some ''outer''
   \<and> JSON_stringify_throws (heap (offline [] two_messages)) two_messages = False
   \<and> formatError (offline [] two_messages) (Rejected two_messages) = Inr ''inner''"
  by (simp add: formatError_def JSON_stringify_throws_def offline_def two_messages_def
      detail_def)

text \<open>
  C4, amended. For every failure object that the log can serialise, the normalizer
  returns one string, chosen in this order: status 404 gives the not-found message,
  which ends with the nested detail message when there is one; status 401 the
  authentication message; status 400 the bad-request message; with none of these, an
  error code that is not empty gives the message \<open>API Error (<code>): ...\<close>; with no
  such code, the nested detail message is returned when there is one, else the object's
  own message, else the fixed text \<open>An unknown error occurred\<close>. A message that is
  empty counts as none.
\<close>

theorem formatError_priority:
  assumes "\<not> JSON_stringify_throws (heap env) f"
  shows
    "(status f = Some 404 \<longrightarrow>
        (\<exists>d. formatError env (Rejected f)
               = Inr (''Resource not found. Please check the provided ID. Details: '' @ d))
        \<and> (body_message f = Some m \<and> m \<noteq> [] \<longrightarrow>
             formatError env (Rejected f)
               = Inr (''Resource not found. Please check the provided ID. Details: '' @ m)))
     \<and> (status f = Some 401 \<longrightarrow>
          (\<exists>d. formatError env (Rejected f)
                 = Inr (''Authentication error. Please check your API token. Details: '' @ d)))
     \<and> (status f = Some 400 \<longrightarrow>
          (\<exists>d. formatError env (Rejected f) = Inr (''Bad request. Details: '' @ d)))
     \<and> (status f \<noteq> Some 404 \<and> status f \<noteq> Some 401 \<and> status f \<noteq> Some 400
          \<and> code f = Some c \<and> c \<noteq> [] \<longrightarrow>
          (\<exists>d. formatError env (Rejected f) = Inr (''API Error ('' @ c @ ''): '' @ d)))
     \<and> (status f \<noteq> Some 404 \<and> status f \<noteq> Some 401 \<and> status f \<noteq> Some 400
          \<and> (code f = None \<or> code f = Some []) \<longrightarrow>
          (body_message f = Some m \<and> m \<noteq> [] \<longrightarrow> formatError env (Rejected f) = Inr m)
          \<and> ((body_message f = None \<or> body_message f = Some []) \<and> message f = Some m
               \<and> m \<noteq> [] \<longrightarrow> formatError env (Rejected f) = Inr m)
          \<and> ((body_message f = None \<or> body_message f = Some [])
               \<and> (message f = None \<or> message f = Some []) \<longrightarrow>
               formatError env (Rejected f) = Inr ''An unknown error occurred''))"
  using assms
  by (auto simp: formatError_def Let_def detail_def unknown_error_def split: option.splits)

theorem formatError_priority_witness:
  "\<not> JSON_stringify_throws (heap (offline [] not_found)) not_found
   \<and> status not_found = Some 404
   \<and> body_message not_found = Some ''Could not find page''
   \<and> formatError (offline [] not_found) (Rejected not_found)
       = Inr (''Resource not found. Please check the provided ID. Details: ''
              @ ''Could not find page'')"
proof -
  have h: "\<not> JSON_stringify_throws (heap (offline [] not_found)) not_found"
    by (simp add: JSON_stringify_throws_def offline_def not_found_def)
  from formatError_priority [OF h, of "''Could not find page''"] h show ?thesis
    by (simp add: not_found_def)
qed

text \<open>
  C9. The claim fails on the failure object whose property \<open>self\<close> is the object
  itself: \<open>JSON.stringify\<close> in line 84 throws, and \<open>formatError\<close> returns no string.
\<close>

theorem formatError_self_referencing:
  "formatError (offline [] self_referencing) (Rejected self_referencing)
     = Inl (TypeError ''Converting circular structure to JSON'')"
  by (simp add: formatError_def JSON_stringify_throws_def offline_def self_referencing_def)

section \<open>What the handlers absorb\<close>

text \<open>
  The three handlers with a \<open>try\<close> turn what they catch into an envelope, as long as
  \<open>formatError\<close> itself returns.
\<close>

lemma read_page_absorbs:
  assumes "read_page_try env pageId = Inl error"
    and "\<not> JSON_stringify_throws (heap env) (as_failure env error)"
  shows "\<exists>m. formatError env error = Inr m
           \<and> read_page env (VObj [(''pageId'', VStr pageId)])
               = (Inr (text_envelope m), [BlocksChildrenList pageId, PagesRetrieve pageId])"
  using assms
  by (auto simp: read_page_def readPage_parse_def string_object_parse_def string_at_def
      lookup_def formatError_def Let_def)

lemma retrieve_database_absorbs:
  assumes "databases_retrieve env (VStr d) = Inl f"
    and "\<not> JSON_stringify_throws (heap env) f"
  shows "\<exists>m. formatError env (Rejected f) = Inr m
           \<and> retrieve_database env (VObj [(''databaseId'', VStr d)])
               = (Inr (text_envelope m), [DatabasesRetrieve (VStr d)])"
  using assms
  by (auto simp: retrieve_database_def lookup_def formatError_def Let_def)

lemma query_database_absorbs:
  assumes "databases_query env (VStr d) VUndefined VUndefined = Inl f"
    and "\<not> JSON_stringify_throws (heap env) f"
  shows "\<exists>m. formatError env (Rejected f) = Inr m
           \<and> query_database env (VObj [(''databaseId'', VStr d)])
               = (Inr (text_envelope (''Error querying database: '' @ m)),
                  [DatabasesQuery (VStr d) VUndefined VUndefined])"
  using assms
  by (auto simp: query_database_def lookup_def formatError_def Let_def)

lemma read_page_self_referencing:
  "fst (read_page (offline [] self_referencing) (VObj [(''pageId'', VStr p)]))
     = Inl (TypeError ''Converting circular structure to JSON'')"
  by (simp add: read_page_def readPage_parse_def string_object_parse_def string_at_def
      lookup_def read_page_try_def promise_all_def formatError_def JSON_stringify_throws_def
      offline_def self_referencing_def)

text \<open>
  C1. The claim fails on \<open>search_pages\<close>, which has no \<open>try\<close>: when \<open>notion.search\<close>
  rejects, the rejection leaves the handler and the request handler throws it on to the
  transport.
\<close>

theorem search_pages_rejection_propagates:
  "call_tool (env\<lparr>search := \<lambda>query. Inl f\<rparr>) ''search_pages'' (VObj [(''query'', VStr q)])
     = (Inl (Rejected f), [Search q])"
  by (simp add: call_tool_def toolHandlers_def search_pages_def searchPages_parse_def
      string_object_parse_def string_at_def lookup_def)

section \<open>Validation before the remote call\<close>

text \<open>The two handlers that parse their arguments issue no call when the argument is missing.\<close>

lemma validated_handlers_reject_missing:
  assumes "map_of ps ''query'' = None" and "map_of qs ''pageId'' = None"
  shows "search_pages env (VObj ps)
           = (Inl (ZodError [InvalidType [''query''] ''string'' ''undefined'']), [])"
    and "read_page env (VObj qs)
           = (Inl (ZodError [InvalidType [''pageId''] ''string'' ''undefined'']), [])"
  using assms
  by (simp_all add: search_pages_def read_page_def searchPages_parse_def readPage_parse_def
      string_object_parse_def string_at_def lookup_def)

text \<open>
  C2. The claim fails on \<open>query_database\<close> and \<open>retrieve_database\<close>, which destructure
  \<open>args\<close> without parsing it: on the empty argument object each issues its remote call,
  with \<open>undefined\<close> as the database id.
\<close>

theorem database_handlers_call_without_id:
  "snd (retrieve_database env (VObj [])) = [DatabasesRetrieve VUndefined]
   \<and> snd (query_database env (VObj [])) = [DatabasesQuery VUndefined VUndefined VUndefined]"
  by (simp add: retrieve_database_def query_database_def Let_def lookup_def
      split: sum.splits)

section \<open>The search result summarizer's titles\<close>

lemma url_slug_roadmap: "url_slug (pre @ ''/Q3-Roadmap-abc123'') = Some ''Q3-Roadmap''"
  by (simp add: url_slug_def)

lemma slug_title_roadmap: "slug_title ''Q3-Roadmap'' = Inr ''Q3 Roadmap''"
  by (simp add: slug_title_def)

text \<open>
  C5, as stated, fails: the second stage looks a property up by its name, not by its
  type. The page \<open>task_page\<close> has a URL without a slug and a property of type title,
  named Task, whose first text run is Plan; its displayed title is Untitled.
\<close>

theorem search_title_counterexample:
  "url_slug ''https://www.notion.so/0123456789abcdef0123456789abcdef'' = None
   \<and> first_run (map_option snd
        (find (\<lambda>(name, p). property_type p = ''title'' \<or> name = ''Name'')
           (the (properties task_page)))) = Some ''Plan''
   \<and> search_title task_page = ''Untitled''"
  by (simp add: task_page_def url_slug_def first_run_def search_title_def extract_title_def
      from_properties_def title_property_def)

text \<open>
  C5, amended. For a matched page with a URL: when the URL's last path segment has a
  slug (the part before its last hyphen) and the slug, its hyphens read as spaces,
  decodes to a title other than Untitled, that is the displayed title. When the URL has
  no slug, or the slug decodes to Untitled, the displayed title is the first text run,
  if it is not empty, of the property named \<open>title\<close>, or when no property has that name,
  of the property named \<open>Name\<close>; when that gives nothing the title is Untitled. A page
  whose URL ends in \<open>/Q3-Roadmap-abc123\<close> has the displayed title \<open>Q3 Roadmap\<close>, whatever
  its properties: after its marker the result line reads \<open> Q3 Roadmap\<close>, a line break,
  and \<open>  Link: \<close> with the URL.
\<close>

theorem search_title_stages:
  "(url page = Some u \<and> url_slug u = Some slug \<and> slug_title slug = Inr t \<and> t \<noteq> ''Untitled''
      \<longrightarrow> search_title page = t)
   \<and> (url page = Some u
        \<and> (url_slug u = None \<or> url_slug u = Some slug \<and> slug_title slug = Inr ''Untitled'')
      \<longrightarrow> (properties page = Some props \<and> map_of props ''title'' = Some p
             \<and> title p = Some (r # rs) \<and> plain_text r \<noteq> []
             \<longrightarrow> search_title page = plain_text r)
          \<and> (properties page = Some props \<and> map_of props ''title'' = None
               \<and> map_of props ''Name'' = Some p
               \<and> title p = Some (r # rs) \<and> plain_text r \<noteq> []
             \<longrightarrow> search_title page = plain_text r)
          \<and> (properties page = None
               \<or> properties page = Some props
                  \<and> (first_run (title_property props) = None
                      \<or> first_run (title_property props) = Some [])
             \<longrightarrow> search_title page = ''Untitled''))
   \<and> (url page = Some (pre @ ''/Q3-Roadmap-abc123'')
      \<longrightarrow> search_title page = ''Q3 Roadmap''
          \<and> suffix ('' Q3 Roadmap'' @ [CHR 0x0A] @ ''  Link: '' @ pre @ ''/Q3-Roadmap-abc123'')
               (result_line page))"
  by (auto simp: search_title_def extract_title_def from_properties_def title_property_def
      first_run_def result_line_def url_slug_roadmap slug_title_roadmap nl_def suffix_def
      split: option.splits list.splits)

theorem search_title_stages_witness:
  "url roadmap_page = Some (''https://www.notion.so'' @ ''/Q3-Roadmap-abc123'')
   \<and> url_slug (''https://www.notion.so'' @ ''/Q3-Roadmap-abc123'') = Some ''Q3-Roadmap''
   \<and> slug_title ''Q3-Roadmap'' = Inr ''Q3 Roadmap''
   \<and> search_title roadmap_page = ''Q3 Roadmap''
   \<and> suffix ('' Q3 Roadmap'' @ [CHR 0x0A] @ ''  Link: ''
              @ ''https://www.notion.so'' @ ''/Q3-Roadmap-abc123'')
        (result_line roadmap_page)
   \<and> url name_page = Some ''https://www.notion.so/0123456789abcdef0123456789abcdef''
   \<and> url_slug ''https://www.notion.so/0123456789abcdef0123456789abcdef'' = None
   \<and> properties name_page
       = Some [(''Name'', \<lparr>property_type = ''title'', title = Some [\<lparr>plain_text = ''Plan''\<rparr>]\<rparr>)]
   \<and> search_title name_page = ''Plan''"
  using
    search_title_stages [where page = roadmap_page
      and u = "''https://www.notion.so'' @ ''/Q3-Roadmap-abc123''"
      and slug = "''Q3-Roadmap''" and t = "''Q3 Roadmap''" and pre = "''https://www.notion.so''"]
    search_title_stages [where page = name_page
      and u = "''https://www.notion.so/0123456789abcdef0123456789abcdef''"
      and props = "[(''Name'', \<lparr>property_type = ''title'', title = Some [\<lparr>plain_text = ''Plan''\<rparr>]\<rparr>)]"
      and p = "\<lparr>property_type = ''title'', title = Some [\<lparr>plain_text = ''Plan''\<rparr>]\<rparr>"
      and r = "\<lparr>plain_text = ''Plan''\<rparr>" and rs = "[]"]
  by (simp add: roadmap_page_def name_page_def url_slug_def slug_title_roadmap)

section \<open>The block loop\<close>

text \<open>
  C6. For every block whose type is none of the recognized ones the renderer does not
  throw: the formatted content is the text extracted from the block's rich text, which
  is appended to the content lines when it is not empty, and nothing changes when it is.
\<close>

theorem unrecognized_block:
  assumes "block_type b \<notin> set recognized"
  shows "formattedContent b = textContent b
         \<and> render_block b r
             = Inr (if textContent b \<noteq> [] then r\<lparr>contentBlocks := contentBlocks r @ [textContent b]\<rparr>
                    else r)"
  using assms by (simp add: recognized_def render_block_def formattedContent_def)

theorem unrecognized_block_witness:
  "block_type callout \<notin> set recognized
   \<and> render_block callout blank
       = Inr \<lparr>childPages = [], childDatabases = [], contentBlocks = [''Note'']\<rparr>"
proof -
  have h: "block_type callout \<notin> set recognized"
    by (simp add: callout_def recognized_def)
  from unrecognized_block [OF h, of blank] h show ?thesis
    by (simp add: callout_def blank_def textContent_def block_field_def)
qed

lemma render_block_body:
  "\<not> is_child b \<Longrightarrow>
   render_block b r
     = Inr (if formattedContent b \<noteq> [] then r\<lparr>contentBlocks := contentBlocks r @ [formattedContent b]\<rparr>
            else r)"
  by (simp add: is_child_def render_block_def)

lemma render_block_child:
  "is_child b \<Longrightarrow> render_block b r = Inr r' \<Longrightarrow> contentBlocks r' = contentBlocks r"
  by (auto simp: is_child_def render_block_def split: sum.splits if_splits)

lemma render_blocks_content:
  "render_blocks bs r = Inr r' \<Longrightarrow>
   contentBlocks r'
     = contentBlocks r
       @ filter (\<lambda>s. s \<noteq> []) (map formattedContent (filter (\<lambda>b. \<not> is_child b) bs))"
proof (induction bs arbitrary: r)
  case Nil
  then show ?case by simp
next
  case (Cons b bs)
  from Cons.prems obtain r1 where b: "render_block b r = Inr r1"
    and rest: "render_blocks bs r1 = Inr r'"
    by (auto split: sum.splits)
  show ?case
  proof (cases "is_child b")
    case True
    from True b have "contentBlocks r1 = contentBlocks r" by (rule render_block_child)
    with Cons.IH [OF rest] True show ?thesis by simp
  next
    case False
    from False b have "contentBlocks r1
      = contentBlocks r @ (if formattedContent b \<noteq> [] then [formattedContent b] else [])"
      by (auto simp: render_block_body)
    with Cons.IH [OF rest] False show ?thesis by simp
  qed
qed

text \<open>
  C10, as stated, fails: a bulleted list item is a recognized block, and one without
  text is not dropped. Its formatted string is the list marker and a space, which is
  not empty, and the loop adds it as a content line.
\<close>

theorem empty_list_item_counterexample:
  "block_type empty_bulleted \<in> set recognized
   \<and> block_type empty_bulleted \<noteq> ''to_do''
   \<and> block_type empty_bulleted \<noteq> ''code''
   \<and> textContent empty_bulleted = []
   \<and> formattedContent empty_bulleted \<noteq> []
   \<and> render_block empty_bulleted blank
       = Inr \<lparr>childPages = [], childDatabases = [],
              contentBlocks = [formattedContent empty_bulleted]\<rparr>"
  by (simp add: empty_bulleted_def recognized_def no_text_def blank_def textContent_def
      block_field_def formattedContent_def render_block_def bullet_def)

text \<open>
  C10, amended. When the loop of \<open>read_page\<close> ends, the content lines it added are the
  formatted strings of the blocks that are no child page and no child database, in
  order, those that are empty left out: a block contributes a content line if and only
  if its formatted string is not empty. So a paragraph or heading without text is
  dropped entirely, while a bulleted or numbered list item without text still
  contributes its marker and a space, a checklist item without text contributes \<open>[x] \<close>
  when it is checked and \<open>[ ] \<close> when it is not, and a code block without text its two
  fence markers around an empty line.
\<close>

theorem content_line_iff:
  "(render_blocks bs r = Inr r' \<longrightarrow>
      contentBlocks r'
        = contentBlocks r
          @ filter (\<lambda>s. s \<noteq> []) (map formattedContent (filter (\<lambda>b. \<not> is_child b) bs)))
   \<and> (\<not> is_child b \<longrightarrow>
        render_block b r
          = Inr (if formattedContent b \<noteq> []
                 then r\<lparr>contentBlocks := contentBlocks r @ [formattedContent b]\<rparr> else r))
   \<and> (block_type b \<in> {''paragraph'', ''heading_1'', ''heading_2'', ''heading_3''}
        \<and> textContent b = [] \<longrightarrow> render_block b r = Inr r)
   \<and> (block_type b \<in> {''bulleted_list_item'', ''numbered_list_item''}
        \<and> textContent b = [] \<longrightarrow>
        (\<exists>marker. marker \<noteq> []
           \<and> render_block b r = Inr (r\<lparr>contentBlocks := contentBlocks r @ [marker @ '' '']\<rparr>)))
   \<and> (block_type b = ''to_do'' \<and> textContent b = []
        \<and> map_of (payloads b) ''to_do'' = Some p \<and> checked p = Some True \<longrightarrow>
        render_block b r = Inr (r\<lparr>contentBlocks := contentBlocks r @ [''[x] '']\<rparr>))
   \<and> (block_type b = ''to_do'' \<and> textContent b = []
        \<and> (map_of (payloads b) ''to_do'' = None
            \<or> map_of (payloads b) ''to_do'' = Some p \<and> checked p \<noteq> Some True) \<longrightarrow>
        render_block b r = Inr (r\<lparr>contentBlocks := contentBlocks r @ [''[ ] '']\<rparr>))
   \<and> (block_type b = ''code'' \<and> textContent b = [] \<longrightarrow>
        render_block b r
          = Inr (r\<lparr>contentBlocks := contentBlocks r
                                     @ [[CHR 0x60, CHR 0x60, CHR 0x60, CHR 0x0A, CHR 0x0A,
                                         CHR 0x60, CHR 0x60, CHR 0x60]]\<rparr>))"
proof -
  have list_item: "\<exists>marker. marker \<noteq> [] \<and> bullet @ '' '' = marker @ '' ''"
    by (rule exI [of _ bullet]) (simp add: bullet_def)
  show ?thesis
    using list_item
    by (auto simp: render_blocks_content render_block_body is_child_def formattedContent_def
        checked_mark_def block_field_def fence_def nl_def render_block_def)
qed

theorem content_line_iff_witness:
  "render_blocks [empty_paragraph, empty_to_do, checked_to_do, empty_code, callout] blank
     = Inr \<lparr>childPages = [], childDatabases = [],
            contentBlocks = [''[ ] '', ''[x] '', fence @ nl @ nl @ fence, ''Note'']\<rparr>
   \<and> block_type empty_paragraph = ''paragraph''
   \<and> textContent empty_paragraph = []
   \<and> render_block empty_paragraph blank = Inr blank
   \<and> block_type empty_bulleted = ''bulleted_list_item''
   \<and> textContent empty_bulleted = []
   \<and> (\<exists>marker. marker \<noteq> []
         \<and> render_block empty_bulleted blank
             = Inr \<lparr>childPages = [], childDatabases = [], contentBlocks = [marker @ '' '']\<rparr>)
   \<and> block_type empty_to_do = ''to_do''
   \<and> textContent empty_to_do = []
   \<and> map_of (payloads empty_to_do) ''to_do'' = Some no_text
   \<and> checked no_text = None
   \<and> render_block empty_to_do blank
       = Inr \<lparr>childPages = [], childDatabases = [], contentBlocks = [''[ ] '']\<rparr>
   \<and> block_type checked_to_do = ''to_do''
   \<and> textContent checked_to_do = []
   \<and> map_of (payloads checked_to_do) ''to_do''
       = Some \<lparr>rich_text = Some [], checked = Some True, child_title = None\<rparr>
   \<and> render_block checked_to_do blank
       = Inr \<lparr>childPages = [], childDatabases = [], contentBlocks = [''[x] '']\<rparr>
   \<and> block_type empty_code = ''code''
   \<and> textContent empty_code = []
   \<and> render_block empty_code blank
       = Inr \<lparr>childPages = [], childDatabases = [], contentBlocks = [fence @ nl @ nl @ fence]\<rparr>"
proof -
  have run: "render_blocks [empty_paragraph, empty_to_do, checked_to_do, empty_code, callout] blank
     = Inr \<lparr>childPages = [], childDatabases = [],
            contentBlocks = [''[ ] '', ''[x] '', fence @ nl @ nl @ fence, ''Note'']\<rparr>"
    by (simp add: empty_paragraph_def empty_to_do_def checked_to_do_def empty_code_def
        callout_def blank_def no_text_def render_block_def formattedContent_def
        textContent_def block_field_def checked_mark_def fence_def nl_def)
  have texts: "textContent empty_paragraph = []" "textContent empty_to_do = []"
    "textContent checked_to_do = []" "textContent empty_code = []"
    "textContent empty_bulleted = []"
    by (simp_all add: empty_paragraph_def empty_to_do_def checked_to_do_def empty_code_def
        empty_bulleted_def no_text_def textContent_def block_field_def)
  have types: "block_type empty_paragraph = ''paragraph''" "block_type empty_to_do = ''to_do''"
    "block_type checked_to_do = ''to_do''" "block_type empty_code = ''code''"
    "block_type empty_bulleted = ''bulleted_list_item''"
    by (simp_all add: empty_paragraph_def empty_to_do_def checked_to_do_def empty_code_def
        empty_bulleted_def)
  have fields: "map_of (payloads empty_to_do) ''to_do'' = Some no_text"
    "checked no_text = None"
    "map_of (payloads checked_to_do) ''to_do''
       = Some \<lparr>rich_text = Some [], checked = Some True, child_title = None\<rparr>"
    by (simp_all add: empty_to_do_def checked_to_do_def no_text_def)
  from content_line_iff [where bs = "[empty_paragraph, empty_to_do, checked_to_do, empty_code, callout]"
      and r = blank and b = empty_paragraph]
    content_line_iff [where r = blank and b = empty_bulleted]
    content_line_iff [where r = blank and b = empty_to_do and p = no_text]
    content_line_iff [where r = blank and b = checked_to_do
      and p = "\<lparr>rich_text = Some [], checked = Some True, child_title = None\<rparr>"]
    content_line_iff [where r = blank and b = empty_code]
    run texts types fields
  show ?thesis by (simp add: blank_def fence_def nl_def)
qed

section \<open>The envelope\<close>

lemma search_pages_shape:
  "fst (search_pages env args) = Inr e \<Longrightarrow> \<exists>t. e = text_envelope t"
  by (auto simp: search_pages_def split: sum.splits option.splits if_splits)

lemma read_page_shape:
  "fst (read_page env args) = Inr e \<Longrightarrow> \<exists>t. e = text_envelope t"
  by (auto simp: read_page_def split: sum.splits)

lemma query_database_shape:
  "fst (query_database env args) = Inr e \<Longrightarrow> \<exists>t. e = text_envelope t"
  by (auto simp: query_database_def Let_def split: sum.splits if_splits)

lemma retrieve_database_shape:
  "fst (retrieve_database env args) = Inr e \<Longrightarrow> \<exists>t. e = text_envelope t"
  by (auto simp: retrieve_database_def Let_def split: sum.splits if_splits)

text \<open>
  C7. Every envelope one of the four handlers returns, from the success path or from a
  \<open>catch\<close>, has a content sequence of exactly one element, of type \<open>text\<close> and with a
  string as its text.
\<close>

theorem envelope_shape:
  "(fst (search_pages env args) = Inr e \<or> fst (read_page env args) = Inr e
    \<or> fst (query_database env args) = Inr e \<or> fst (retrieve_database env args) = Inr e)
   \<longrightarrow> (\<exists>s. content e = [\<lparr>ctype = ''text'', ctext = s\<rparr>])"
  using search_pages_shape [of env args e] read_page_shape [of env args e]
    query_database_shape [of env args e] retrieve_database_shape [of env args e]
  by (auto simp: text_envelope_def)

theorem envelope_shape_witness:
  "fst (retrieve_database (offline [] not_found) (VObj [(''databaseId'', VStr ''d1'')]))
     = Inr (text_envelope
              ''Resource not found. Please check the provided ID. Details: Could not find page'')
   \<and> (\<exists>s. content (text_envelope
              ''Resource not found. Please check the provided ID. Details: Could not find page'')
           = [\<lparr>ctype = ''text'', ctext = s\<rparr>])"
proof -
  have h: "fst (retrieve_database (offline [] not_found) (VObj [(''databaseId'', VStr ''d1'')]))
     = Inr (text_envelope
              ''Resource not found. Please check the provided ID. Details: Could not find page'')"
    by (simp add: retrieve_database_def lookup_def formatError_def JSON_stringify_throws_def
        offline_def not_found_def detail_def)
  from envelope_shape [where env = "offline [] not_found"
      and args = "VObj [(''databaseId'', VStr ''d1'')]"
      and e = "text_envelope
              ''Resource not found. Please check the provided ID. Details: Could not find page''"]
    h show ?thesis by blast
qed

section \<open>A search without matches\<close>

lemma sublist_skip_front:
  "xs \<noteq> [] \<Longrightarrow> hd xs \<notin> set a \<Longrightarrow> sublist xs (a @ r) \<Longrightarrow> sublist xs r"
proof (induction a)
  case Nil
  then show ?case by simp
next
  case (Cons c a)
  from Cons.prems(1,2) have "\<not> prefix xs (c # a @ r)"
    by (cases xs) auto
  with Cons.prems(3) have "sublist xs (a @ r)"
    by (simp add: sublist_Cons_right)
  with Cons show ?case by simp
qed

lemma sublist_skip_back:
  assumes "xs \<noteq> []" and "last xs \<notin> set b" and "sublist xs (r @ b)"
  shows "sublist xs r"
proof -
  from assms(3) have "sublist (rev xs) (rev b @ rev r)"
    by (metis rev_append sublist_rev)
  moreover from assms(1,2) have "rev xs \<noteq> []" and "hd (rev xs) \<notin> set (rev b)"
    by (simp_all add: hd_rev)
  ultimately have "sublist (rev xs) (rev r)" by (rule sublist_skip_front [rotated 2])
  then show ?thesis by simp
qed

lemma no_pages_bullet: "sublist bullet (no_pages q) \<Longrightarrow> sublist bullet q"
proof -
  assume a: "sublist bullet (no_pages q)"
  have ne: "bullet \<noteq> []" by (simp add: bullet_def)
  from a have "sublist bullet (''No pages found matching '' @ dq @ (q @ dq))"
    by (simp add: no_pages_def)
  then have "sublist bullet (q @ dq)"
    using ne
    by (intro sublist_skip_front [of bullet "''No pages found matching '' @ dq" "q @ dq"])
       (simp_all add: bullet_def dq_def)
  then show ?thesis
    using ne by (intro sublist_skip_back [of bullet dq q]) (simp_all add: bullet_def dq_def)
qed

text \<open>
  C8. When the arguments carry the query and the remote answer has no results (an empty
  list, or none at all), \<open>search_pages\<close> returns an envelope, not an error, whose text is
  the one sentence \<open>No pages found matching "<query>"\<close>: it contains the query, and the
  bullet marker of a result line occurs in it only where the query itself has it.
\<close>

theorem search_pages_no_matches:
  assumes "map_of ps ''query'' = Some (VStr q)"
    and "search env q = Inr response"
    and "results response = None \<or> results response = Some []"
  shows "search_pages env (VObj ps)
           = (Inr \<lparr>content =
                    [\<lparr>ctype = ''text'',
                      ctext = ''No pages found matching '' @ [CHR 0x22] @ q @ [CHR 0x22]\<rparr>]\<rparr>,
              [Search q])
         \<and> (sublist bullet (''No pages found matching '' @ [CHR 0x22] @ q @ [CHR 0x22])
              \<longrightarrow> sublist bullet q)"
  using assms no_pages_bullet [of q]
  by (auto simp: search_pages_def searchPages_parse_def string_object_parse_def string_at_def
      lookup_def text_envelope_def no_pages_def dq_def)

theorem search_pages_no_matches_witness:
  "map_of [(''query'', VStr ''roadmap'')] ''query'' = Some (VStr ''roadmap'')
   \<and> search (offline [] unauthorized\<lparr>search := \<lambda>query. Inr \<lparr>results = Some []\<rparr>\<rparr>) ''roadmap''
       = Inr \<lparr>results = Some []\<rparr>
   \<and> search_pages (offline [] unauthorized\<lparr>search := \<lambda>query. Inr \<lparr>results = Some []\<rparr>\<rparr>)
       (VObj [(''query'', VStr ''roadmap'')])
       = (Inr \<lparr>content =
                [\<lparr>ctype = ''text'',
                  ctext = ''No pages found matching '' @ [CHR 0x22] @ ''roadmap'' @ [CHR 0x22]\<rparr>]\<rparr>,
          [Search ''roadmap''])"
proof -
  have a: "map_of [(''query'', VStr ''roadmap'')] ''query'' = Some (VStr ''roadmap'')"
    by simp
  have b: "search (offline [] unauthorized\<lparr>search := \<lambda>query. Inr \<lparr>results = Some []\<rparr>\<rparr>) ''roadmap''
       = Inr \<lparr>results = Some []\<rparr>"
    by simp
  have c: "results \<lparr>results = Some ([] :: search_page list)\<rparr> = None
           \<or> results \<lparr>results = Some ([] :: search_page list)\<rparr> = Some []"
    by simp
  from search_pages_no_matches [OF a b c] a b show ?thesis by simp
qed

end
